theory Spec2Isabelle
  imports Complex_Main
begin

section \<open>Values and exceptions\<close>

text \<open>
  The values that \<^verbatim>\<open>request.get_json()\<close> and \<^verbatim>\<open>response.json()\<close> hand to the program are
  what Python's \<^verbatim>\<open>json.loads\<close> builds: \<^verbatim>\<open>None\<close>, \<^verbatim>\<open>bool\<close>, \<^verbatim>\<open>int\<close>, \<^verbatim>\<open>float\<close>, \<^verbatim>\<open>str\<close>,
  \<^verbatim>\<open>list\<close> and \<^verbatim>\<open>dict\<close>. A float keeps its exact value as a rational, or is one of
  the three non-finite values (\<^verbatim>\<open>json.loads\<close> reads \<^verbatim>\<open>1e400\<close> and \<^verbatim>\<open>Infinity\<close> as
  \<^verbatim>\<open>inf\<close>). A \<^verbatim>\<open>str\<close> is the list of the bytes of its UTF-8 encoding. A \<^verbatim>\<open>dict\<close> is an
  association list read at the first binding of a key.
\<close>

datatype pyfloat = Finite rat | PosInf | NegInf | NaN

datatype json =
    JNull
  | JBool bool
  | JInt int
  | JFloat pyfloat
  | JStr string
  | JList "json list"
  | JObj "(string \<times> json) list"

text \<open>The classes of the exceptions that the program can meet.\<close>

datatype exn =
    ValueError
  | TypeError
  | OverflowError
  | AttributeError
  | KeyError
  | RequestException

text \<open>Truth value of a value, as \<^verbatim>\<open>not data\<close> and \<^verbatim>\<open>x if text else y\<close> test it.\<close>

fun truthy :: "json \<Rightarrow> bool" where
  "truthy JNull = False"
| "truthy (JBool b) = b"
| "truthy (JInt n) = (n \<noteq> 0)"
| "truthy (JFloat f) = (f \<noteq> Finite 0)"
| "truthy (JStr s) = (s \<noteq> [])"
| "truthy (JList xs) = (xs \<noteq> [])"
| "truthy (JObj kvs) = (kvs \<noteq> [])"

text \<open>
  \<^verbatim>\<open>key in data\<close> for a \<^verbatim>\<open>str\<close> key: membership among the keys of a dict, among the
  elements of a list, as a substring of a str; a \<^verbatim>\<open>TypeError\<close> on every other value
  (\<^verbatim>\<open>argument of type 'int' is not iterable\<close>).
\<close>

fun is_substring :: "string \<Rightarrow> string \<Rightarrow> bool" where
  "is_substring k [] = (k = [])"
| "is_substring k (c # cs) = (take (length k) (c # cs) = k \<or> is_substring k cs)"

fun py_in :: "string \<Rightarrow> json \<Rightarrow> exn + bool" where
  "py_in k (JObj kvs) = Inr (k \<in> set (map fst kvs))"
| "py_in k (JList xs) = Inr (JStr k \<in> set xs)"
| "py_in k (JStr s) = Inr (is_substring k s)"
| "py_in k JNull = Inl TypeError"
| "py_in k (JBool b) = Inl TypeError"
| "py_in k (JInt n) = Inl TypeError"
| "py_in k (JFloat f) = Inl TypeError"

text \<open>
  \<^verbatim>\<open>data[key]\<close> for a \<^verbatim>\<open>str\<close> key: the bound value of a dict (\<^verbatim>\<open>KeyError\<close> when there is
  none), a \<^verbatim>\<open>TypeError\<close> on a list or a str (their indices must be integers) and on the
  values that cannot be subscripted.
\<close>

fun py_getitem :: "json \<Rightarrow> string \<Rightarrow> exn + json" where
  "py_getitem (JObj kvs) k = (case map_of kvs k of None \<Rightarrow> Inl KeyError | Some v \<Rightarrow> Inr v)"
| "py_getitem v k = Inl TypeError"

text \<open>
  \<^verbatim>\<open>data.get(key, default)\<close>: only a dict has the method; on every other value the
  attribute lookup raises \<^verbatim>\<open>AttributeError\<close>.
\<close>

fun py_get :: "json \<Rightarrow> string \<Rightarrow> json \<Rightarrow> exn + json" where
  "py_get (JObj kvs) k d = (case map_of kvs k of None \<Rightarrow> Inr d | Some v \<Rightarrow> Inr v)"
| "py_get v k d = Inl AttributeError"

section \<open>Strings and integers\<close>

text \<open>
  \<^verbatim>\<open>str(n)\<close> and the \<^verbatim>\<open>{n}\<close> of an f-string, for an \<^verbatim>\<open>int\<close>: the decimal digits, after a
  minus sign when the number is negative.
\<close>

fun digits :: "nat \<Rightarrow> string" where
  "digits n =
     (if n < 10 then [''0123456789'' ! n]
      else digits (n div 10) @ [''0123456789'' ! (n mod 10)])"

declare digits.simps [simp del]

definition str_int :: "int \<Rightarrow> string" where
  "str_int n = (if n < 0 then CHR ''-'' # digits (nat (- n)) else digits (nat n))"

text \<open>
  The characters that \<^verbatim>\<open>str.strip()\<close> removes, each as the bytes of its UTF-8 encoding:
  U+0009 to U+000D, U+001C to U+0020, U+0085, U+00A0, U+1680, U+2000 to U+200A, U+2028,
  U+2029, U+202F, U+205F and U+3000.
\<close>

definition whitespace :: "string list" where
  "whitespace =
     [[CHR 0x09], [CHR 0x0A], [CHR 0x0B], [CHR 0x0C], [CHR 0x0D],
      [CHR 0x1C], [CHR 0x1D], [CHR 0x1E], [CHR 0x1F], [CHR 0x20],
      [CHR 0xC2, CHR 0x85], [CHR 0xC2, CHR 0xA0],
      [CHR 0xE1, CHR 0x9A, CHR 0x80],
      [CHR 0xE2, CHR 0x80, CHR 0x80], [CHR 0xE2, CHR 0x80, CHR 0x81],
      [CHR 0xE2, CHR 0x80, CHR 0x82], [CHR 0xE2, CHR 0x80, CHR 0x83],
      [CHR 0xE2, CHR 0x80, CHR 0x84], [CHR 0xE2, CHR 0x80, CHR 0x85],
      [CHR 0xE2, CHR 0x80, CHR 0x86], [CHR 0xE2, CHR 0x80, CHR 0x87],
      [CHR 0xE2, CHR 0x80, CHR 0x88], [CHR 0xE2, CHR 0x80, CHR 0x89],
      [CHR 0xE2, CHR 0x80, CHR 0x8A],
      [CHR 0xE2, CHR 0x80, CHR 0xA8], [CHR 0xE2, CHR 0x80, CHR 0xA9],
      [CHR 0xE2, CHR 0x80, CHR 0xAF], [CHR 0xE2, CHR 0x81, CHR 0x9F],
      [CHR 0xE3, CHR 0x80, CHR 0x80]]"

text \<open>
  The number of bytes of the character of \<open>ps\<close> that \<open>s\<close> starts with, 0 when it starts
  with none; and the removal of all such characters from the front.
\<close>

definition match_len :: "string list \<Rightarrow> string \<Rightarrow> nat" where
  "match_len ps s =
     (case find (\<lambda>p. take (length p) s = p) ps of None \<Rightarrow> 0 | Some p \<Rightarrow> length p)"

fun strip_left :: "string list \<Rightarrow> string \<Rightarrow> string" where
  "strip_left ps [] = []"
| "strip_left ps (c # cs) =
     (case match_len ps (c # cs) of 0 \<Rightarrow> c # cs | Suc n \<Rightarrow> strip_left ps (drop n cs))"

text \<open>\<^verbatim>\<open>s.strip()\<close>: whitespace goes from both ends; at the end the bytes are matched backwards.\<close>

definition py_strip :: "string \<Rightarrow> string" where
  "py_strip s = rev (strip_left (map rev whitespace) (rev (strip_left whitespace s)))"

text \<open>A string that is empty or made of whitespace characters only.\<close>

inductive blank :: "string \<Rightarrow> bool" where
  blank_Nil: "blank []"
| blank_Cons: "p \<in> set whitespace \<Longrightarrow> blank s \<Longrightarrow> blank (p @ s)"

text \<open>
  \<^verbatim>\<open>int(x)\<close> for a float: \<^verbatim>\<open>ValueError\<close> on NaN, \<^verbatim>\<open>OverflowError\<close> on an infinity, and
  the integer part otherwise (rounding towards zero).
\<close>

definition py_trunc :: "rat \<Rightarrow> int" where
  "py_trunc r = (if r < 0 then \<lceil>r\<rceil> else \<lfloor>r\<rfloor>)"

text \<open>Sequencing of steps that can raise: the first exception ends the computation.\<close>

definition ebind :: "exn + 'a \<Rightarrow> ('a \<Rightarrow> exn + 'b) \<Rightarrow> exn + 'b" where
  "ebind m f = (case m of Inl e \<Rightarrow> Inl e | Inr x \<Rightarrow> f x)"

section \<open>The outside world\<close>

text \<open>
  What \<^verbatim>\<open>requests.get(url, timeout=10)\<close> can do: raise one of the exceptions of
  \<^verbatim>\<open>requests\<close> (no connection, timeout, ...), or return a response with a status code and
  a body; the body is \<open>None\<close> when it is not JSON, and then \<^verbatim>\<open>response.json()\<close> raises
  \<^verbatim>\<open>requests.exceptions.JSONDecodeError\<close>, a \<^verbatim>\<open>RequestException\<close> since requests 2.27.
\<close>

datatype http_result =
    RequestFailed
  | HttpResponse nat "json option"

text \<open>The outbound calls of the program, in the order in which it makes them.\<close>

datatype call =
    HttpGet string
  | ChatCompletion string

text \<open>
  The environment of a request.
  \<^item> \<open>groq_client\<close>: whether the module-level \<^verbatim>\<open>Groq(...)\<close> succeeded (\<^verbatim>\<open>groq_client\<close> is not
    \<^verbatim>\<open>None\<close>).
  \<^item> \<open>http_get\<close>: the behaviour of the two HTTP services, by URL.
  \<^item> \<open>create_completion\<close>: the behaviour of \<^verbatim>\<open>groq_client.chat.completions.create\<close> on a
    prompt (sent as the one user message, with model \<^verbatim>\<open>llama-3.3-70b-versatile\<close>, temperature
    0.6 and at most 2048 tokens): either it raises an \<^verbatim>\<open>Exception\<close>, given by its \<^verbatim>\<open>str()\<close>, or
    it returns the \<^verbatim>\<open>message.content\<close> of each of its choices.
  \<^item> \<open>int_of_str\<close>: Python's \<^verbatim>\<open>int(s)\<close> on a \<^verbatim>\<open>str\<close>, \<open>None\<close> where it raises \<^verbatim>\<open>ValueError\<close>.
  \<^item> \<open>repr_of\<close>: Python's \<^verbatim>\<open>str(v)\<close> on a float, a list or a dict.
  The last two are facts of the Python runtime that no property below depends on; they
  are left open, so every theorem holds whatever they are.
\<close>

record env =
  groq_client :: bool
  http_get :: "string \<Rightarrow> http_result"
  create_completion :: "string \<Rightarrow> string + string option list"
  int_of_str :: "string \<Rightarrow> int option"
  repr_of :: "json \<Rightarrow> string"

text \<open>\<^verbatim>\<open>int(v)\<close>.\<close>

fun py_int :: "env \<Rightarrow> json \<Rightarrow> exn + int" where
  "py_int w JNull = Inl TypeError"
| "py_int w (JBool b) = Inr (if b then 1 else 0)"
| "py_int w (JInt n) = Inr n"
| "py_int w (JFloat (Finite r)) = Inr (py_trunc r)"
| "py_int w (JFloat NaN) = Inl ValueError"
| "py_int w (JFloat PosInf) = Inl OverflowError"
| "py_int w (JFloat NegInf) = Inl OverflowError"
| "py_int w (JStr s) = (case int_of_str w s of None \<Rightarrow> Inl ValueError | Some n \<Rightarrow> Inr n)"
| "py_int w (JList xs) = Inl TypeError"
| "py_int w (JObj kvs) = Inl TypeError"

text \<open>\<^verbatim>\<open>str(v)\<close>, which is what \<^verbatim>\<open>{v}\<close> in an f-string inserts.\<close>

fun py_str :: "env \<Rightarrow> json \<Rightarrow> string" where
  "py_str w (JStr s) = s"
| "py_str w JNull = ''None''"
| "py_str w (JBool b) = (if b then ''True'' else ''False'')"
| "py_str w (JInt n) = str_int n"
| "py_str w v = repr_of w v"

text \<open>\<^verbatim>\<open>v == n\<close> for an \<^verbatim>\<open>int\<close> \<open>n\<close>: numbers compare by value, \<^verbatim>\<open>True\<close> is 1 and \<^verbatim>\<open>False\<close> is 0.\<close>

fun py_eq_int :: "json \<Rightarrow> int \<Rightarrow> bool" where
  "py_eq_int (JInt k) n = (k = n)"
| "py_eq_int (JBool b) n = ((if b then 1 else 0) = n)"
| "py_eq_int (JFloat (Finite r)) n = (r = of_int n)"
| "py_eq_int v n = False"

text \<open>
  The three lines that both fetchers share: \<^verbatim>\<open>requests.get\<close>, \<^verbatim>\<open>raise_for_status()\<close> (an
  \<^verbatim>\<open>HTTPError\<close> for a status from 400 to 599) and \<^verbatim>\<open>response.json()\<close>. Every exception
  here is a \<^verbatim>\<open>RequestException\<close>.
\<close>

definition request_json :: "env \<Rightarrow> string \<Rightarrow> exn + json" where
  "request_json w url =
     (case http_get w url of
        RequestFailed \<Rightarrow> Inl RequestException
      | HttpResponse status body \<Rightarrow>
          if 400 \<le> status \<and> status < 600 then Inl RequestException
          else (case body of None \<Rightarrow> Inl RequestException | Some data \<Rightarrow> Inr data))"

section \<open>Configuration\<close>

definition TAFSIR_API_BASE_URL :: string where
  "TAFSIR_API_BASE_URL = ''https://cdn.jsdelivr.net/gh/spa5k/tafsir_api@main/tafsir''"

definition TAFSIR_SOURCES :: "(string \<times> string) list" where
  "TAFSIR_SOURCES =
     [(''context'', ''en-kashf-al-asrar-tafsir''),
      (''classical'', ''en-tafisr-ibn-kathir''),
      (''modern'', ''en-tafsir-maarif-ul-quran'')]"

definition DATA_UNAVAILABLE_MESSAGE :: string where
  "DATA_UNAVAILABLE_MESSAGE =
     ''Information from this source is currently unavailable or not found for this verse.''"

definition QURAN_API_BASE_URL :: string where
  "QURAN_API_BASE_URL = ''http://api.alquran.cloud/v1/ayah''"

section \<open>get_ayah_text\<close>

definition ayah_url :: "int \<Rightarrow> int \<Rightarrow> string" where
  "ayah_url surah ayah =
     QURAN_API_BASE_URL @ ''/'' @ str_int surah @ '':'' @ str_int ayah @ ''/en.asad''"

text \<open>The body of the \<^verbatim>\<open>try\<close>.\<close>

definition ayah_text_try :: "env \<Rightarrow> string \<Rightarrow> exn + json" where
  "ayah_text_try w url =
     ebind (request_json w url) (\<lambda>data.
     ebind (py_get data ''code'' JNull) (\<lambda>code.
       if py_eq_int code 200 then
         ebind (py_get data ''data'' (JObj [])) (\<lambda>d.
         ebind (py_get d ''text'' JNull) (\<lambda>text.
           if truthy text then
             ebind (py_getitem data ''data'') (\<lambda>d'. py_getitem d' ''text'')
           else Inr (JStr ''Could not retrieve the translation for this verse.'')))
       else Inr (JStr ''Could not retrieve the translation for this verse.'')))"

text \<open>
  The function: the value it returns, or the exception that leaves it, and the calls it
  made. Only a \<^verbatim>\<open>RequestException\<close> is caught.
\<close>

definition get_ayah_text :: "env \<Rightarrow> int \<Rightarrow> int \<Rightarrow> (exn + json) \<times> call list" where
  "get_ayah_text w surah ayah =
     (let url = ayah_url surah ayah in
      (case ayah_text_try w url of
         Inl e \<Rightarrow>
           if e = RequestException
           then Inr (JStr ''Could not retrieve the translation due to a network error.'')
           else Inl e
       | Inr text \<Rightarrow> Inr text,
       [HttpGet url]))"

section \<open>get_tafsir_data\<close>

definition tafsir_url :: "string \<Rightarrow> int \<Rightarrow> int \<Rightarrow> string" where
  "tafsir_url source_slug surah ayah =
     TAFSIR_API_BASE_URL @ ''/'' @ source_slug @ ''/'' @ str_int surah @ ''/'' @ str_int ayah
       @ ''.json''"

text \<open>\<^verbatim>\<open>v.strip()\<close>: only a \<^verbatim>\<open>str\<close> has the method.\<close>

fun strip_method :: "json \<Rightarrow> exn + string" where
  "strip_method (JStr s) = Inr (py_strip s)"
| "strip_method v = Inl AttributeError"

text \<open>
  One turn of the loop: the text stored under the source's name, or the exception that
  leaves the function.
\<close>

definition tafsir_entry :: "env \<Rightarrow> string \<Rightarrow> exn + string" where
  "tafsir_entry w url =
     (case ebind (request_json w url) (\<lambda>data.
           ebind (py_get data ''text'' (JStr [])) (\<lambda>t.
           ebind (strip_method t) (\<lambda>text.
             Inr (if text \<noteq> [] then text else DATA_UNAVAILABLE_MESSAGE)))) of
        Inl e \<Rightarrow> if e = RequestException then Inr DATA_UNAVAILABLE_MESSAGE else Inl e
      | Inr v \<Rightarrow> Inr v)"

text \<open>The loop over the sources, from the dictionary \<open>collected_data\<close> built so far.\<close>

fun tafsir_loop ::
  "env \<Rightarrow> int \<Rightarrow> int \<Rightarrow> (string \<times> string) list \<Rightarrow> (string \<rightharpoonup> string)
     \<Rightarrow> (exn + (string \<rightharpoonup> string)) \<times> call list" where
  "tafsir_loop w surah ayah [] collected_data = (Inr collected_data, [])"
| "tafsir_loop w surah ayah ((source_name, source_slug) # rest) collected_data =
     (let url = tafsir_url source_slug surah ayah in
      case tafsir_entry w url of
        Inl e \<Rightarrow> (Inl e, [HttpGet url])
      | Inr v \<Rightarrow>
          (let (r, calls) = tafsir_loop w surah ayah rest (collected_data(source_name \<mapsto> v))
           in (r, HttpGet url # calls)))"

definition get_tafsir_data ::
  "env \<Rightarrow> int \<Rightarrow> int \<Rightarrow> (exn + (string \<rightharpoonup> string)) \<times> call list" where
  "get_tafsir_data w surah ayah = tafsir_loop w surah ayah TAFSIR_SOURCES Map.empty"

section \<open>generate_explanation_prompt\<close>

definition dquote :: string where
  "dquote = [CHR 0x22]"

definition squote :: string where
  "squote = [CHR 0x27]"

text \<open>\<^verbatim>\<open>{d.get(k)}\<close> in the f-string: the text, or \<^verbatim>\<open>None\<close> for a key that \<open>d\<close> lacks.\<close>

fun str_opt :: "string option \<Rightarrow> string" where
  "str_opt None = ''None''"
| "str_opt (Some s) = s"

definition generate_explanation_prompt ::
  "int \<Rightarrow> int \<Rightarrow> string \<Rightarrow> (string \<rightharpoonup> string) \<Rightarrow> string" where
  "generate_explanation_prompt surah ayah ayah_text tafsir_data =
     ''You are a helpful and knowledgeable assistant for Quranic studies. Your primary task is to provide a clear, multi-source explanation for Surah '' @
     str_int surah @ '', Ayah '' @ str_int ayah @ ''.\<newline>'' @
     ''\<newline>'' @
     ''**Your response MUST be structured in the following order:**\<newline>'' @
     ''\<newline>'' @
     ''**1. The Verse:**\<newline>'' @
     ''   - Start with the heading '' @ dquote @ ''### The Verse (Surah '' @ str_int surah @
     '': Ayah '' @ str_int ayah @ '')'' @ dquote @ ''.\<newline>'' @
     ''   - Immediately after the heading, quote the English translation of the verse provided below.\<newline>'' @
     ''\<newline>'' @
     ''**2. The Explanation:**\<newline>'' @
     ''   - Based on the data provided, generate a detailed explanation. You must attribute every piece of information to its source using phrases like '' @
     dquote @ ''According to Al-Wahidi...'' @ dquote @ '', '' @ dquote @
     ''Ibn Kathir explains that...'' @ dquote @ '', etc.\<newline>'' @
     ''   - If the '' @ squote @ ''Shan-e-Nazool'' @ squote @
     '' (reason for revelation) from Al-Wahidi is available, present it first under the heading '' @
     dquote @ ''### Shan-e-Nazool (Reason for Revelation)'' @ dquote @ ''.\<newline>'' @
     ''   - If it is unavailable, DO NOT mention the unavailability. Simply proceed to the next section.\<newline>'' @
     ''   - Present the commentary from Tafsir Ibn Kathir under the heading '' @ dquote @
     ''### Classical Commentary: Tafsir Ibn Kathir'' @ dquote @ ''.\<newline>'' @
     ''   - Present the commentary from Maarif-ul-Quran under the heading '' @ dquote @
     ''### Modern Commentary: Maarif-ul-Quran'' @ dquote @ ''.\<newline>'' @
     ''\<newline>'' @
     ''**3. Summary:**\<newline>'' @
     ''   - Conclude with a brief summary under the heading '' @ dquote @ ''### Summary'' @
     dquote @ ''.\<newline>'' @
     ''\<newline>'' @
     ''---\<newline>'' @
     ''**DATA FOR YOUR TASK:**\<newline>'' @
     ''\<newline>'' @
     ''**[Verse Translation]:**\<newline>'' @
     ayah_text @ ''\<newline>'' @
     ''\<newline>'' @
     ''**[Al-Wahidi'' @ squote @ ''s Asbab Al-Nuzul]:**\<newline>'' @
     str_opt (tafsir_data ''context'') @ ''\<newline>'' @
     ''\<newline>'' @
     ''**[Tafsir Ibn Kathir]:**\<newline>'' @
     str_opt (tafsir_data ''classical'') @ ''\<newline>'' @
     ''\<newline>'' @
     ''**[Maarif-ul-Quran]:**\<newline>'' @
     str_opt (tafsir_data ''modern'') @ ''\<newline>'' @
     ''---\<newline>'' @
     ''\<newline>'' @
     ''Begin your response now.\<newline>''"

section \<open>explain_ayah\<close>

text \<open>What the view returns: the JSON body and the status code.\<close>

datatype reply = Reply json nat

definition error_reply :: "string \<Rightarrow> nat \<Rightarrow> reply" where
  "error_reply msg status = Reply (JObj [(''error'', JStr msg)]) status"

text \<open>\<^verbatim>\<open>not data or 'surah' not in data or 'ayah' not in data\<close>, evaluated from the left.\<close>

definition missing_fields :: "json \<Rightarrow> exn + bool" where
  "missing_fields data =
     (if \<not> truthy data then Inr True
      else ebind (py_in ''surah'' data) (\<lambda>has_surah.
        if \<not> has_surah then Inr True
        else ebind (py_in ''ayah'' data) (\<lambda>has_ayah. Inr (\<not> has_ayah))))"

text \<open>The two conversions of the first \<^verbatim>\<open>try\<close>.\<close>

definition parse_fields :: "env \<Rightarrow> json \<Rightarrow> exn + int \<times> int" where
  "parse_fields w data =
     ebind (ebind (py_getitem data ''surah'') (py_int w)) (\<lambda>surah.
     ebind (ebind (py_getitem data ''ayah'') (py_int w)) (\<lambda>ayah.
       Inr (surah, ayah)))"

text \<open>
  The second \<^verbatim>\<open>try\<close>: the completion call and \<^verbatim>\<open>choices[0].message.content\<close>, an
  \<^verbatim>\<open>IndexError\<close> when there is no choice. \<^verbatim>\<open>except Exception\<close> catches all of it; the reply
  carries the \<^verbatim>\<open>str()\<close> of the exception.
\<close>

definition generate :: "env \<Rightarrow> string \<Rightarrow> reply" where
  "generate w prompt =
     (case create_completion w prompt of
        Inl msg \<Rightarrow>
          error_reply (''Failed to get explanation from the language model: '' @ msg) 500
      | Inr choices \<Rightarrow>
          (case choices of
             [] \<Rightarrow>
               error_reply
                 (''Failed to get explanation from the language model: ''
                    @ ''list index out of range'') 500
           | explanation # _ \<Rightarrow>
               Reply (JObj [(''explanation'',
                              case explanation of None \<Rightarrow> JNull | Some s \<Rightarrow> JStr s)]) 200))"

text \<open>The part of the view after the validation (from the call of \<^verbatim>\<open>get_ayah_text\<close> on).\<close>

definition explain_verse :: "env \<Rightarrow> int \<Rightarrow> int \<Rightarrow> (exn + reply) \<times> call list" where
  "explain_verse w surah ayah =
     (case get_ayah_text w surah ayah of
        (Inl e, calls1) \<Rightarrow> (Inl e, calls1)
      | (Inr ayah_text, calls1) \<Rightarrow>
          (case get_tafsir_data w surah ayah of
             (Inl e, calls2) \<Rightarrow> (Inl e, calls1 @ calls2)
           | (Inr tafsir_data, calls2) \<Rightarrow>
               (let prompt =
                      generate_explanation_prompt surah ayah (py_str w ayah_text) tafsir_data
                in (Inr (generate w prompt), calls1 @ calls2 @ [ChatCompletion prompt]))))"

text \<open>
  The view, on the value \<open>data\<close> that \<^verbatim>\<open>request.get_json()\<close> returned: the reply, or the
  exception that leaves the view (the framework then answers on its own), and the outbound
  calls made.
\<close>

definition explain_ayah :: "env \<Rightarrow> json \<Rightarrow> (exn + reply) \<times> call list" where
  "explain_ayah w data =
     (if \<not> groq_client w
      then (Inr (error_reply ''Groq client is not initialized. Check API key.'' 500), [])
      else
        (case missing_fields data of
           Inl e \<Rightarrow> (Inl e, [])
         | Inr True \<Rightarrow> (Inr (error_reply ''Missing Surah or Ayah number'' 400), [])
         | Inr False \<Rightarrow>
             (case parse_fields w data of
                Inl e \<Rightarrow>
                  if e = ValueError \<or> e = TypeError
                  then (Inr (error_reply ''Surah and Ayah must be numbers'' 400), [])
                  else (Inl e, [])
              | Inr (surah, ayah) \<Rightarrow> explain_verse w surah ayah)))"

text \<open>The status code of the reply, \<open>None\<close> when an exception left the view.\<close>

definition reply_status :: "exn + reply \<Rightarrow> nat option" where
  "reply_status r = (case r of Inl e \<Rightarrow> None | Inr (Reply body status) \<Rightarrow> Some status)"

section \<open>Example environments\<close>

text \<open>
  The examples below run the program in concrete environments. In them \<^verbatim>\<open>int(s)\<close> reads the
  plain decimal literals (digits, after an optional minus sign) and rejects every other
  string; the examples apply it to such literals and to \<^verbatim>\<open>"x"\<close> only.
\<close>

fun digits_value :: "string \<Rightarrow> nat \<Rightarrow> nat option" where
  "digits_value [] n = Some n"
| "digits_value (c # cs) n =
     (if (48::nat) \<le> of_char c \<and> of_char c \<le> (57::nat)
      then digits_value cs (10 * n + (of_char c - 48))
      else None)"

definition decimal :: "string \<Rightarrow> int option" where
  "decimal s =
     (case s of
        [] \<Rightarrow> None
      | c # cs \<Rightarrow>
          if c = CHR ''-''
          then (if cs = [] then None else map_option (\<lambda>n. - int n) (digits_value cs 0))
          else map_option int (digits_value s 0))"

definition example_env ::
  "bool \<Rightarrow> (string \<Rightarrow> http_result) \<Rightarrow> (string \<Rightarrow> string + string option list) \<Rightarrow> env" where
  "example_env client http completion =
     \<lparr>groq_client = client, http_get = http, create_completion = completion,
      int_of_str = decimal, repr_of = (\<lambda>v. ''?'')\<rparr>"

text \<open>
  Services that answer every URL with status 200 and one body, which has the fields of a
  translation (\<^verbatim>\<open>code\<close>, \<^verbatim>\<open>data.text\<close>) and the field of a commentary (\<^verbatim>\<open>text\<close>).
\<close>

definition good_body :: json where
  "good_body =
     JObj [(''code'', JInt 200),
           (''data'', JObj [(''text'', JStr ''Guide us the straight way.'')]),
           (''text'', JStr '' Commentary on the verse. '')]"

definition good_http :: "string \<Rightarrow> http_result" where
  "good_http url = HttpResponse 200 (Some good_body)"

text \<open>A completion service that answers, and one that is down.\<close>

definition completion_ok :: "string \<Rightarrow> string + string option list" where
  "completion_ok prompt = Inr [Some ''This verse asks for guidance.'']"

definition completion_down :: "string \<Rightarrow> string + string option list" where
  "completion_down prompt = Inl ''Connection error.''"

text \<open>The commentary and the prompt of a request for verse 1:6 when all services answer.\<close>

definition good_tafsir :: "string \<rightharpoonup> string" where
  "good_tafsir =
     [''context'' \<mapsto> ''Commentary on the verse.'',
      ''classical'' \<mapsto> ''Commentary on the verse.'',
      ''modern'' \<mapsto> ''Commentary on the verse.'']"

definition good_prompt :: string where
  "good_prompt = generate_explanation_prompt 1 6 ''Guide us the straight way.'' good_tafsir"

definition request_1_6 :: json where
  "request_1_6 = JObj [(''surah'', JInt 1), (''ayah'', JStr ''6'')]"

text \<open>A translation service whose answer has \<^verbatim>\<open>null\<close> where the verse should be.\<close>

definition null_data_http :: "string \<Rightarrow> http_result" where
  "null_data_http url = HttpResponse 200 (Some (JObj [(''code'', JInt 200), (''data'', JNull)]))"

text \<open>A commentary service whose answer has \<^verbatim>\<open>null\<close> as its text.\<close>

definition null_text_http :: "string \<Rightarrow> http_result" where
  "null_text_http url = HttpResponse 200 (Some (JObj [(''text'', JNull)]))"

text \<open>Requests: a float and a boolean as the numbers; numbers that are not positive.\<close>

definition request_float_bool :: json where
  "request_float_bool = JObj [(''surah'', JFloat (Finite (29 / 10))), (''ayah'', JBool True)]"

definition request_nonpositive :: json where
  "request_nonpositive = JObj [(''surah'', JInt 0), (''ayah'', JInt (- 1))]"

definition request_x :: json where
  "request_x = JObj [(''surah'', JStr ''x''), (''ayah'', JInt 1)]"

text \<open>
  The requests that the view is meant to refuse: a body without the field \<^verbatim>\<open>surah\<close> or the
  field \<^verbatim>\<open>ayah\<close> (an object that lacks one, an array, a string, no body or any other body
  that counts as false), and an object in which \<^verbatim>\<open>int()\<close> rejects the surah with a
  \<^verbatim>\<open>ValueError\<close> or a \<^verbatim>\<open>TypeError\<close>, or accepts the surah and so rejects the ayah.
\<close>

definition rejected :: "exn + int \<Rightarrow> bool" where
  "rejected r = (r = Inl ValueError \<or> r = Inl TypeError)"

definition accepted :: "exn + int \<Rightarrow> bool" where
  "accepted r = (case r of Inl e \<Rightarrow> False | Inr n \<Rightarrow> True)"

fun invalid_request :: "env \<Rightarrow> json \<Rightarrow> bool" where
  "invalid_request w (JObj kvs) =
     (case map_of kvs ''surah'' of
        None \<Rightarrow> True
      | Some s \<Rightarrow>
          (case map_of kvs ''ayah'' of
             None \<Rightarrow> True
           | Some a \<Rightarrow>
               rejected (py_int w s) \<or> (accepted (py_int w s) \<and> rejected (py_int w a))))"
| "invalid_request w (JList xs) = True"
| "invalid_request w (JStr s) = True"
| "invalid_request w v = (\<not> truthy v)"

text \<open>Whether a step returned a value rather than raising.\<close>

definition returns :: "exn + 'a \<Rightarrow> bool" where
  "returns r = (case r of Inl e \<Rightarrow> False | Inr x \<Rightarrow> True)"

text \<open>
  The text under a key of the dictionary that \<^verbatim>\<open>get_tafsir_data\<close> returned; \<open>None\<close> when the
  function raised or when the dictionary lacks the key.
\<close>

definition entry_of ::
  "(exn + (string \<rightharpoonup> string)) \<times> call list \<Rightarrow> string \<Rightarrow> string option" where
  "entry_of result key = (case fst result of Inl e \<Rightarrow> None | Inr m \<Rightarrow> m key)"

text \<open>
  The outcomes of a request that \<^verbatim>\<open>requests\<close> reports as a failure: no response at all, a
  status from 400 to 599, or a body that is not JSON.
\<close>

definition fetch_fails :: "http_result \<Rightarrow> bool" where
  "fetch_fails r =
     (case r of
        RequestFailed \<Rightarrow> True
      | HttpResponse status body \<Rightarrow> (400 \<le> status \<and> status < 600) \<or> body = None)"

text \<open>
  Services as before, except that for verse 1:6 the source of the classical commentary
  answers with status 503 (and the usual body), or with \<^verbatim>\<open>null\<close> as its text, or with a text
  of whitespace only (a space, a line feed and a no-break space).
\<close>

definition classical_down_http :: "string \<Rightarrow> http_result" where
  "classical_down_http url =
     (if url = tafsir_url ''en-tafisr-ibn-kathir'' 1 6
      then HttpResponse 503 (Some good_body)
      else good_http url)"

definition classical_null_http :: "string \<Rightarrow> http_result" where
  "classical_null_http url =
     (if url = tafsir_url ''en-tafisr-ibn-kathir'' 1 6
      then HttpResponse 200 (Some (JObj [(''text'', JNull)]))
      else good_http url)"

definition blank_text :: string where
  "blank_text = [CHR 0x20, CHR 0x0A, CHR 0xC2, CHR 0xA0]"

definition classical_blank_http :: "string \<Rightarrow> http_result" where
  "classical_blank_http url =
     (if url = tafsir_url ''en-tafisr-ibn-kathir'' 1 6
      then HttpResponse 200 (Some (JObj [(''text'', JStr blank_text)]))
      else good_http url)"

text \<open>
  The strings \<open>blocks\<close> occur in \<open>s\<close> one after the other, in the order of the list and
  without overlap.
\<close>

fun occurs_in_order :: "string list \<Rightarrow> string \<Rightarrow> bool" where
  "occurs_in_order [] s = True"
| "occurs_in_order (b # bs) s = (\<exists>pre post. s = pre @ b @ post \<and> occurs_in_order bs post)"

section \<open>Basic facts\<close>

lemma ebind_Inl [simp]: "ebind (Inl e) f = Inl e"
  by (simp add: ebind_def)

lemma ebind_Inr [simp]: "ebind (Inr x) f = f x"
  by (simp add: ebind_def)

lemma request_json_exn: "request_json w url = Inl e \<Longrightarrow> e = RequestException"
  by (auto simp: request_json_def split: http_result.splits if_splits option.splits)

lemma get_ayah_text_calls: "snd (get_ayah_text w surah ayah) = [HttpGet (ayah_url surah ayah)]"
  by (simp add: get_ayah_text_def Let_def)

text \<open>The commentary loop makes HTTP requests only.\<close>

lemma tafsir_loop_calls:
  "ChatCompletion p \<notin> set (snd (tafsir_loop w surah ayah srcs collected))"
proof (induction srcs arbitrary: collected)
  case Nil
  show ?case by simp
next
  case (Cons src srcs)
  obtain name slug where src: "src = (name, slug)" by (cases src)
  show ?case
  proof (cases "tafsir_entry w (tafsir_url slug surah ayah)")
    case (Inl e)
    then show ?thesis by (simp add: src)
  next
    case (Inr v)
    obtain r calls
      where rest: "tafsir_loop w surah ayah srcs (collected(name \<mapsto> v)) = (r, calls)"
      by fastforce
    have "ChatCompletion p \<notin> set calls"
      using Cons.IH [of "collected(name \<mapsto> v)"] unfolding rest snd_conv .
    with Inr rest show ?thesis
      by (simp add: src)
  qed
qed

text \<open>
  A completion call is made at one place only, and the reply is then what the second
  \<^verbatim>\<open>try\<close> produces.
\<close>

lemma explain_verse_completion:
  assumes "ChatCompletion p \<in> set (snd (explain_verse w surah ayah))"
  shows "fst (explain_verse w surah ayah) = Inr (generate w p)"
proof -
  obtain r1 c1 where g1: "get_ayah_text w surah ayah = (r1, c1)" by fastforce
  obtain r2 c2 where g2: "get_tafsir_data w surah ayah = (r2, c2)" by fastforce
  from g1 get_ayah_text_calls [of w surah ayah] have c1: "ChatCompletion p \<notin> set c1" by auto
  from g2 tafsir_loop_calls [of p w surah ayah TAFSIR_SOURCES Map.empty]
  have c2: "ChatCompletion p \<notin> set c2" by (simp add: get_tafsir_data_def)
  show ?thesis
  proof (cases r1)
    case (Inl e)
    with assms g1 c1 show ?thesis by (simp add: explain_verse_def)
  next
    case r1: (Inr t)
    show ?thesis
    proof (cases r2)
      case (Inl e)
      with assms g1 g2 c1 c2 r1 show ?thesis by (simp add: explain_verse_def)
    next
      case (Inr m)
      with assms g1 g2 c1 c2 r1 show ?thesis by (auto simp: explain_verse_def Let_def)
    qed
  qed
qed

lemma explain_ayah_completion:
  assumes "ChatCompletion p \<in> set (snd (explain_ayah w data))"
  shows "fst (explain_ayah w data) = Inr (generate w p)"
proof -
  from assms obtain surah ayah where "explain_ayah w data = explain_verse w surah ayah"
    by (auto simp: explain_ayah_def split: if_splits sum.splits bool.splits prod.splits)
  with assms explain_verse_completion show ?thesis by simp
qed

section \<open>The examples, evaluated\<close>

lemma str_int_1: "str_int 1 = ''1''" by (simp add: str_int_def digits.simps)
lemma str_int_6: "str_int 6 = ''6''" by (simp add: str_int_def digits.simps)

lemma good_ayah_text:
  "get_ayah_text (example_env c good_http k) surah ayah =
     (Inr (JStr ''Guide us the straight way.''), [HttpGet (ayah_url surah ayah)])"
  by (simp add: get_ayah_text_def ayah_text_try_def request_json_def example_env_def
      good_http_def good_body_def)

lemma strip_commentary: "py_strip '' Commentary on the verse. '' = ''Commentary on the verse.''"
  by (simp add: py_strip_def whitespace_def match_len_def)

lemma good_tafsir_entry:
  "tafsir_entry (example_env c good_http k) url = Inr ''Commentary on the verse.''"
  by (simp add: tafsir_entry_def request_json_def example_env_def good_http_def good_body_def
      strip_commentary)

lemma good_tafsir_data:
  "get_tafsir_data (example_env c good_http k) surah ayah =
     (Inr good_tafsir,
      [HttpGet (tafsir_url ''en-kashf-al-asrar-tafsir'' surah ayah),
       HttpGet (tafsir_url ''en-tafisr-ibn-kathir'' surah ayah),
       HttpGet (tafsir_url ''en-tafsir-maarif-ul-quran'' surah ayah)])"
  by (simp add: get_tafsir_data_def TAFSIR_SOURCES_def good_tafsir_entry good_tafsir_def)

lemma decimal_6: "decimal ''6'' = Some 6"
  by (simp add: decimal_def)

lemma good_request:
  "explain_ayah (example_env True good_http k) request_1_6 =
     explain_verse (example_env True good_http k) 1 6"
  by (simp add: explain_ayah_def missing_fields_def parse_fields_def request_1_6_def
      example_env_def decimal_6)

lemma good_verse:
  "explain_verse (example_env True good_http k) 1 6 =
     (Inr (generate (example_env True good_http k) good_prompt),
      [HttpGet (ayah_url 1 6),
       HttpGet (tafsir_url ''en-kashf-al-asrar-tafsir'' 1 6),
       HttpGet (tafsir_url ''en-tafisr-ibn-kathir'' 1 6),
       HttpGet (tafsir_url ''en-tafsir-maarif-ul-quran'' 1 6),
       ChatCompletion good_prompt])"
  by (simp add: explain_verse_def good_ayah_text good_tafsir_data good_prompt_def Let_def)

section \<open>The reply after the completion call\<close>

text \<open>
  Claim C9. Whenever the view makes the completion call and the call succeeds, returning
  \<open>text\<close> as the content of its first choice, the view replies with status 200 and a body
  whose \<^verbatim>\<open>explanation\<close> field is \<open>text\<close> itself, unchanged.
\<close>

theorem completion_text_returned_verbatim:
  assumes "ChatCompletion prompt \<in> set (snd (explain_ayah w data))"
    and "create_completion w prompt = Inr (Some text # others)"
  shows "fst (explain_ayah w data) = Inr (Reply (JObj [(''explanation'', JStr text)]) 200)"
  using explain_ayah_completion [OF assms(1)] assms(2) by (simp add: generate_def)

text \<open>The request for verse 1:6 with all services answering.\<close>

theorem completion_text_returned_verbatim_witness:
  "ChatCompletion good_prompt
     \<in> set (snd (explain_ayah (example_env True good_http completion_ok) request_1_6))
   \<and> create_completion (example_env True good_http completion_ok) good_prompt
       = Inr (Some ''This verse asks for guidance.'' # [])
   \<and> fst (explain_ayah (example_env True good_http completion_ok) request_1_6)
       = Inr (Reply (JObj [(''explanation'', JStr ''This verse asks for guidance.'')]) 200)"
proof -
  have call: "ChatCompletion good_prompt
     \<in> set (snd (explain_ayah (example_env True good_http completion_ok) request_1_6))"
    by (simp add: good_request good_verse)
  have answer: "create_completion (example_env True good_http completion_ok) good_prompt
       = Inr (Some ''This verse asks for guidance.'' # [])"
    by (simp add: example_env_def completion_ok_def)
  from completion_text_returned_verbatim [OF call answer] call answer show ?thesis
    by simp
qed

text \<open>
  Claim C8. Whenever the view makes the completion call and the call raises an exception,
  the view replies with status 500 and an \<^verbatim>\<open>error\<close> message that ends with the text of the
  exception; the result is a reply, so no exception leaves the view.
\<close>

theorem completion_failure_gives_500:
  assumes "ChatCompletion prompt \<in> set (snd (explain_ayah w data))"
    and "create_completion w prompt = Inl cause"
  shows "fst (explain_ayah w data) =
     Inr (Reply (JObj [(''error'',
            JStr (''Failed to get explanation from the language model: '' @ cause))]) 500)"
  using explain_ayah_completion [OF assms(1)] assms(2)
  by (simp add: generate_def error_reply_def)

text \<open>The same request when the completion service is down.\<close>

theorem completion_failure_gives_500_witness:
  "ChatCompletion good_prompt
     \<in> set (snd (explain_ayah (example_env True good_http completion_down) request_1_6))
   \<and> create_completion (example_env True good_http completion_down) good_prompt
       = Inl ''Connection error.''
   \<and> fst (explain_ayah (example_env True good_http completion_down) request_1_6)
       = Inr (Reply (JObj [(''error'',
           JStr (''Failed to get explanation from the language model: ''
                   @ ''Connection error.''))]) 500)"
proof -
  have call: "ChatCompletion good_prompt
     \<in> set (snd (explain_ayah (example_env True good_http completion_down) request_1_6))"
    by (simp add: good_request good_verse)
  have answer: "create_completion (example_env True good_http completion_down) good_prompt
       = Inl ''Connection error.''"
    by (simp add: example_env_def completion_down_def)
  from completion_failure_gives_500 [OF call answer] call answer show ?thesis
    by simp
qed

section \<open>Validation and what follows it\<close>

lemma map_of_in_keys: "(k \<in> fst ` set kvs) = (map_of kvs k \<noteq> None)"
  by (simp add: map_of_eq_None_iff)

lemma explain_ayah_converted:
  assumes "groq_client w"
    and "map_of kvs ''surah'' = Some s" and "map_of kvs ''ayah'' = Some a"
    and "py_int w s = Inr surah" and "py_int w a = Inr ayah"
  shows "explain_ayah w (JObj kvs) = explain_verse w surah ayah"
proof -
  from assms(2,3) have "kvs \<noteq> []" by auto
  moreover from assms(2,3) have "''surah'' \<in> fst ` set kvs" "''ayah'' \<in> fst ` set kvs"
    by (simp_all add: map_of_in_keys)
  ultimately have "missing_fields (JObj kvs) = Inr False"
    by (simp add: missing_fields_def)
  moreover from assms(2-5) have "parse_fields w (JObj kvs) = Inr (surah, ayah)"
    by (simp add: parse_fields_def)
  ultimately show ?thesis using assms(1)
    by (simp add: explain_ayah_def)
qed

lemma explain_verse_first_call:
  "\<exists>calls. snd (explain_verse w surah ayah) = HttpGet (ayah_url surah ayah) # calls"
proof -
  obtain r1 where g1: "get_ayah_text w surah ayah = (r1, [HttpGet (ayah_url surah ayah)])"
    using get_ayah_text_calls [of w surah ayah] by (cases "get_ayah_text w surah ayah") simp
  show ?thesis
    by (cases r1; cases "get_tafsir_data w surah ayah";
        cases "fst (get_tafsir_data w surah ayah)")
       (simp_all add: explain_verse_def g1 Let_def)
qed

lemma generate_status: "reply_status (Inr (generate w p)) \<noteq> Some 400"
  by (simp add: generate_def reply_status_def error_reply_def split: sum.splits list.splits)

lemma explain_verse_status: "reply_status (fst (explain_verse w surah ayah)) \<noteq> Some 400"
proof -
  obtain r1 c1 where g1: "get_ayah_text w surah ayah = (r1, c1)" by fastforce
  obtain r2 c2 where g2: "get_tafsir_data w surah ayah = (r2, c2)" by fastforce
  show ?thesis
    by (cases r1; cases r2)
       (simp_all add: explain_verse_def g1 g2 Let_def generate_status,
        simp_all add: reply_status_def)
qed

lemma py_trunc_towards_zero:
  "\<bar>of_int (py_trunc r)\<bar> \<le> \<bar>r\<bar> \<and> \<bar>r - of_int (py_trunc r)\<bar> < 1"
  unfolding py_trunc_def by (auto; linarith)

lemma get_tafsir_first_call:
  "\<exists>calls. snd (get_tafsir_data w surah ayah) =
     HttpGet (tafsir_url ''en-kashf-al-asrar-tafsir'' surah ayah) # calls"
  by (cases "tafsir_entry w (tafsir_url ''en-kashf-al-asrar-tafsir'' surah ayah)")
     (simp_all add: get_tafsir_data_def TAFSIR_SOURCES_def split: prod.splits)

lemma invalid_request_refused:
  assumes "invalid_request w data"
  shows "explain_ayah w data =
    (Inr (error_reply
            (if groq_client w
             then (if missing_fields data = Inr True then ''Missing Surah or Ayah number''
                   else ''Surah and Ayah must be numbers'')
             else ''Groq client is not initialized. Check API key.'')
            (if groq_client w then 400 else 500)),
     [])"
proof (cases data)
  case (JObj kvs)
  show ?thesis
  proof (cases "map_of kvs ''surah''")
    case None
    then have "''surah'' \<notin> fst ` set kvs" by (simp add: map_of_in_keys)
    then show ?thesis by (simp add: JObj explain_ayah_def missing_fields_def)
  next
    case s: (Some s)
    then have ks: "''surah'' \<in> fst ` set kvs" "kvs \<noteq> []" by (auto simp add: map_of_in_keys)
    show ?thesis
    proof (cases "map_of kvs ''ayah''")
      case None
      then have "''ayah'' \<notin> fst ` set kvs" by (simp add: map_of_in_keys)
      with ks show ?thesis by (simp add: JObj explain_ayah_def missing_fields_def)
    next
      case a: (Some a)
      then have ka: "''ayah'' \<in> fst ` set kvs" by (simp add: map_of_in_keys)
      from ks ka have m: "missing_fields data = Inr False" by (simp add: JObj missing_fields_def)
      from assms s a
      have "rejected (py_int w s) \<or> (accepted (py_int w s) \<and> rejected (py_int w a))"
        by (simp add: JObj)
      then have "parse_fields w data = Inl ValueError \<or> parse_fields w data = Inl TypeError"
        by (auto simp: JObj parse_fields_def s a rejected_def accepted_def split: sum.splits)
      with m show ?thesis by (auto simp: explain_ayah_def)
    qed
  qed
next
  case (JList xs)
  show ?thesis
    by (simp add: JList explain_ayah_def missing_fields_def parse_fields_def)
next
  case (JStr s)
  show ?thesis
    by (simp add: JStr explain_ayah_def missing_fields_def parse_fields_def)
qed (use assms in \<open>simp_all add: explain_ayah_def missing_fields_def\<close>)

section \<open>Responses of an unexpected shape\<close>

text \<open>
  Claim C2 says that \<^verbatim>\<open>get_ayah_text\<close> never raises, whatever the translation service
  answers. It does raise: when the service answers with status 200 and the body
  \<^verbatim>\<open>{"code": 200, "data": null}\<close>, \<^verbatim>\<open>data.get('data', {})\<close> is \<^verbatim>\<open>None\<close>, the call of \<^verbatim>\<open>.get('text')\<close>
  on it raises \<^verbatim>\<open>AttributeError\<close>, and the \<^verbatim>\<open>except\<close> clause catches \<^verbatim>\<open>RequestException\<close> only.
\<close>

theorem get_ayah_text_raises_on_null_data:
  "get_ayah_text (example_env True null_data_http completion_ok) 1 6 =
     (Inl AttributeError, [HttpGet ''http://api.alquran.cloud/v1/ayah/1:6/en.asad''])"
  by (simp add: get_ayah_text_def ayah_text_try_def request_json_def example_env_def
      null_data_http_def ayah_url_def QURAN_API_BASE_URL_def str_int_1 str_int_6)

text \<open>
  Claim C4 says that \<^verbatim>\<open>get_tafsir_data\<close> always returns a dictionary with the three keys.
  When a commentary service answers with status 200 and the body \<^verbatim>\<open>{"text": null}\<close>,
  \<^verbatim>\<open>data.get("text", "")\<close> is \<^verbatim>\<open>None\<close>, \<^verbatim>\<open>.strip()\<close> on it raises \<^verbatim>\<open>AttributeError\<close>, which the
  \<^verbatim>\<open>except\<close> clause does not catch: the function returns nothing, and the two other sources
  are not asked.
\<close>

theorem get_tafsir_data_raises_on_null_text:
  "get_tafsir_data (example_env True null_text_http completion_ok) 1 6 =
     (Inl AttributeError,
      [HttpGet (''https://cdn.jsdelivr.net/gh/spa5k/tafsir_api@main/tafsir/''
                  @ ''en-kashf-al-asrar-tafsir/1/6.json'')])"
  by (simp add: get_tafsir_data_def TAFSIR_SOURCES_def tafsir_entry_def request_json_def
      example_env_def null_text_http_def tafsir_url_def TAFSIR_API_BASE_URL_def
      str_int_1 str_int_6)

section \<open>Requests that are refused\<close>

lemma decimal_x: "decimal ''x'' = None"
  by (simp add: decimal_def)

text \<open>
  Claim C1 says that a request without the two fields, or with values that are not
  numbers, gets a 400 reply and causes no outbound call, whether or not the completion
  client was initialised. The check of the client comes first in the view, so without a
  client such a request gets the 500 reply of that check. Here the body is \<^verbatim>\<open>{}\<close>.
\<close>

theorem missing_fields_without_client_counterexample:
  "explain_ayah (example_env False good_http completion_ok) (JObj []) =
     (Inr (Reply (JObj [(''error'', JStr ''Groq client is not initialized. Check API key.'')])
            500),
      [])"
  by (simp add: explain_ayah_def example_env_def error_reply_def)

text \<open>
  Claim C1, as the code has it. A request that \<open>invalid_request\<close> describes (a body without
  the field \<^verbatim>\<open>surah\<close> or \<^verbatim>\<open>ayah\<close>, or an object whose surah or ayah \<^verbatim>\<open>int()\<close> rejects with a
  \<^verbatim>\<open>ValueError\<close> or a \<^verbatim>\<open>TypeError\<close>) causes no outbound call; the reply has status 400 when
  the completion client was initialised, and status 500 when it was not.
\<close>

theorem invalid_request_no_calls:
  assumes "invalid_request w data"
  shows "snd (explain_ayah w data) = []
    \<and> reply_status (fst (explain_ayah w data)) = Some (if groq_client w then 400 else 500)"
  by (simp add: invalid_request_refused [OF assms] reply_status_def error_reply_def)

text \<open>The body \<^verbatim>\<open>{"surah": "x", "ayah": 1}\<close>, with a client.\<close>

theorem invalid_request_no_calls_witness:
  "invalid_request (example_env True good_http completion_ok) request_x
   \<and> snd (explain_ayah (example_env True good_http completion_ok) request_x) = []
   \<and> reply_status (fst (explain_ayah (example_env True good_http completion_ok) request_x))
       = Some 400"
proof -
  have bad: "invalid_request (example_env True good_http completion_ok) request_x"
    by (simp add: request_x_def rejected_def example_env_def decimal_x)
  have "groq_client (example_env True good_http completion_ok)"
    by (simp add: example_env_def)
  with invalid_request_no_calls [OF bad] bad show ?thesis
    by simp
qed

text \<open>
  Two kinds of request are outside \<open>invalid_request\<close>, and the view answers them with an
  exception of its own: an infinite float (\<^verbatim>\<open>int()\<close> raises \<^verbatim>\<open>OverflowError\<close>, which the
  \<^verbatim>\<open>except\<close> clause does not name) and a body that is a number.
\<close>

lemma explain_ayah_overflow_escapes:
  "groq_client w \<Longrightarrow>
   explain_ayah w (JObj [(''surah'', JFloat PosInf), (''ayah'', JInt 1)]) = (Inl OverflowError, [])"
  by (simp add: explain_ayah_def missing_fields_def parse_fields_def)

lemma explain_ayah_number_body_escapes:
  "groq_client w \<Longrightarrow> explain_ayah w (JInt 5) = (Inl TypeError, [])"
  by (simp add: explain_ayah_def missing_fields_def)

section \<open>Requests that pass the validation\<close>

lemma str_int_0: "str_int 0 = ''0''" by (simp add: str_int_def digits.simps)
lemma str_int_m1: "str_int (- 1) = ''-1''" by (simp add: str_int_def digits.simps)
lemma str_int_2: "str_int 2 = ''2''" by (simp add: str_int_def digits.simps)

lemma explain_verse_two_calls:
  assumes "fst (get_ayah_text w surah ayah) = Inr verse"
  shows "take 2 (snd (explain_verse w surah ayah)) =
    [HttpGet (ayah_url surah ayah), HttpGet (tafsir_url ''en-kashf-al-asrar-tafsir'' surah ayah)]"
proof -
  from assms get_ayah_text_calls [of w surah ayah]
  have g1: "get_ayah_text w surah ayah = (Inr verse, [HttpGet (ayah_url surah ayah)])"
    by (cases "get_ayah_text w surah ayah") simp
  obtain r2 c2 where g2: "get_tafsir_data w surah ayah = (r2, c2)" by fastforce
  from get_tafsir_first_call [of w surah ayah] g2 obtain calls where
    c2: "c2 = HttpGet (tafsir_url ''en-kashf-al-asrar-tafsir'' surah ayah) # calls" by auto
  show ?thesis
    by (cases r2) (simp_all add: explain_verse_def g1 g2 c2 Let_def)
qed

text \<open>
  Claim C5 says that the fetchers only ever see positive numbers, a request with a zero or
  a negative number being stopped before. The view has no such check. Here the body is
  \<^verbatim>\<open>{"surah": 0, "ayah": -1}\<close>, and all four requests are made with 0 and -1.
\<close>

theorem nonpositive_verse_fetched_counterexample:
  "take 4 (snd (explain_ayah (example_env True good_http completion_ok) request_nonpositive)) =
     [HttpGet ''http://api.alquran.cloud/v1/ayah/0:-1/en.asad'',
      HttpGet (''https://cdn.jsdelivr.net/gh/spa5k/tafsir_api@main/tafsir/''
                 @ ''en-kashf-al-asrar-tafsir/0/-1.json''),
      HttpGet (''https://cdn.jsdelivr.net/gh/spa5k/tafsir_api@main/tafsir/''
                 @ ''en-tafisr-ibn-kathir/0/-1.json''),
      HttpGet (''https://cdn.jsdelivr.net/gh/spa5k/tafsir_api@main/tafsir/''
                 @ ''en-tafsir-maarif-ul-quran/0/-1.json'')]"
proof -
  have "explain_ayah (example_env True good_http completion_ok) request_nonpositive =
      explain_verse (example_env True good_http completion_ok) 0 (- 1)"
    by (simp add: explain_ayah_def missing_fields_def parse_fields_def request_nonpositive_def
        example_env_def)
  then show ?thesis
    by (simp add: explain_verse_def good_ayah_text good_tafsir_data Let_def ayah_url_def
        tafsir_url_def QURAN_API_BASE_URL_def TAFSIR_API_BASE_URL_def str_int_0 str_int_m1)
qed

text \<open>
  Claim C5, as the code has it. The numbers given to the fetchers are the integers that
  \<^verbatim>\<open>int()\<close> returns for the two fields, of any sign: the first outbound call is the request
  of the translation of exactly that verse and, when \<^verbatim>\<open>get_ayah_text\<close> returns, the next one
  is the request of the first commentary on exactly that verse.
\<close>

theorem fetchers_get_converted_integers:
  assumes "groq_client w"
    and "map_of kvs ''surah'' = Some s" and "map_of kvs ''ayah'' = Some a"
    and "py_int w s = Inr surah" and "py_int w a = Inr ayah"
  shows "take 1 (snd (explain_ayah w (JObj kvs))) = [HttpGet (ayah_url surah ayah)]
    \<and> (fst (get_ayah_text w surah ayah) = Inr verse \<longrightarrow>
         take 2 (snd (explain_ayah w (JObj kvs))) =
           [HttpGet (ayah_url surah ayah),
            HttpGet (tafsir_url ''en-kashf-al-asrar-tafsir'' surah ayah)])"
proof -
  have eq: "explain_ayah w (JObj kvs) = explain_verse w surah ayah"
    using assms by (rule explain_ayah_converted)
  from explain_verse_first_call [of w surah ayah]
  have "take 1 (snd (explain_verse w surah ayah)) = [HttpGet (ayah_url surah ayah)]"
    by auto
  with eq explain_verse_two_calls [of w surah ayah verse] show ?thesis
    by simp
qed

text \<open>The body \<^verbatim>\<open>{"surah": 0, "ayah": -1}\<close> again.\<close>

theorem fetchers_get_converted_integers_witness:
  "groq_client (example_env True good_http completion_ok)
   \<and> map_of [(''surah'', JInt 0), (''ayah'', JInt (- 1))] ''surah'' = Some (JInt 0)
   \<and> map_of [(''surah'', JInt 0), (''ayah'', JInt (- 1))] ''ayah'' = Some (JInt (- 1))
   \<and> py_int (example_env True good_http completion_ok) (JInt 0) = Inr 0
   \<and> py_int (example_env True good_http completion_ok) (JInt (- 1)) = Inr (- 1)
   \<and> fst (get_ayah_text (example_env True good_http completion_ok) 0 (- 1))
       = Inr (JStr ''Guide us the straight way.'')
   \<and> take 2 (snd (explain_ayah (example_env True good_http completion_ok)
                    (JObj [(''surah'', JInt 0), (''ayah'', JInt (- 1))]))) =
       [HttpGet (ayah_url 0 (- 1)), HttpGet (tafsir_url ''en-kashf-al-asrar-tafsir'' 0 (- 1))]"
proof -
  have client: "groq_client (example_env True good_http completion_ok)"
    by (simp add: example_env_def)
  have verse: "fst (get_ayah_text (example_env True good_http completion_ok) 0 (- 1))
       = Inr (JStr ''Guide us the straight way.'')"
    by (simp add: good_ayah_text)
  from fetchers_get_converted_integers
    [of "example_env True good_http completion_ok"
        "[(''surah'', JInt 0), (''ayah'', JInt (- 1))]" "JInt 0" "JInt (- 1)" 0 "- 1"
        "JStr ''Guide us the straight way.''"]
    client verse
  show ?thesis by simp
qed

lemma trunc_29_10: "py_trunc (29 / 10) = 2"
  by code_simp

text \<open>
  Claim C10. The validation accepts whatever \<^verbatim>\<open>int()\<close> accepts. A finite float is accepted
  and becomes its integer part, rounded towards zero (the integer \<open>n\<close> with \<open>\<bar>n\<bar> \<le> \<bar>r\<bar>\<close> and
  \<open>\<bar>r - n\<bar> < 1\<close>); a boolean is accepted as 0 or 1. A request whose two fields convert is not
  answered with status 400: it goes on to the fetchers, with the converted numbers.
\<close>

theorem int_convertible_values_pass_validation:
  assumes "groq_client w"
    and "map_of kvs ''surah'' = Some s" and "map_of kvs ''ayah'' = Some a"
    and "py_int w s = Inr surah" and "py_int w a = Inr ayah"
  shows "py_int w (JFloat (Finite r)) = Inr (py_trunc r)
    \<and> \<bar>of_int (py_trunc r)\<bar> \<le> \<bar>r\<bar> \<and> \<bar>r - of_int (py_trunc r)\<bar> < 1
    \<and> py_int w (JBool b) = Inr (if b then 1 else 0)
    \<and> reply_status (fst (explain_ayah w (JObj kvs))) \<noteq> Some 400
    \<and> take 1 (snd (explain_ayah w (JObj kvs))) = [HttpGet (ayah_url surah ayah)]"
proof -
  have eq: "explain_ayah w (JObj kvs) = explain_verse w surah ayah"
    using assms by (rule explain_ayah_converted)
  from explain_verse_first_call [of w surah ayah]
  have "take 1 (snd (explain_verse w surah ayah)) = [HttpGet (ayah_url surah ayah)]"
    by auto
  with eq explain_verse_status [of w surah ayah] py_trunc_towards_zero [of r] show ?thesis
    by simp
qed

text \<open>The body \<^verbatim>\<open>{"surah": 2.9, "ayah": true}\<close>: the translation of verse 2:1 is requested.\<close>

theorem int_convertible_values_pass_validation_witness:
  "groq_client (example_env True good_http completion_ok)
   \<and> map_of [(''surah'', JFloat (Finite (29 / 10))), (''ayah'', JBool True)] ''surah''
       = Some (JFloat (Finite (29 / 10)))
   \<and> map_of [(''surah'', JFloat (Finite (29 / 10))), (''ayah'', JBool True)] ''ayah''
       = Some (JBool True)
   \<and> py_int (example_env True good_http completion_ok) (JFloat (Finite (29 / 10))) = Inr 2
   \<and> py_int (example_env True good_http completion_ok) (JBool True) = Inr 1
   \<and> reply_status (fst (explain_ayah (example_env True good_http completion_ok)
                          request_float_bool)) \<noteq> Some 400
   \<and> take 1 (snd (explain_ayah (example_env True good_http completion_ok) request_float_bool))
       = [HttpGet ''http://api.alquran.cloud/v1/ayah/2:1/en.asad'']"
proof -
  have client: "groq_client (example_env True good_http completion_ok)"
    by (simp add: example_env_def)
  have url: "ayah_url 2 1 = ''http://api.alquran.cloud/v1/ayah/2:1/en.asad''"
    by (simp add: ayah_url_def QURAN_API_BASE_URL_def str_int_1 str_int_2)
  from int_convertible_values_pass_validation
    [of "example_env True good_http completion_ok"
        "[(''surah'', JFloat (Finite (29 / 10))), (''ayah'', JBool True)]"
        "JFloat (Finite (29 / 10))" "JBool True" 2 1 0 True]
    client url
  show ?thesis by (simp add: trunc_29_10 request_float_bool_def)
qed

section \<open>Whitespace\<close>

lemma whitespace_nonempty: "p \<in> set whitespace \<Longrightarrow> p \<noteq> []"
  by (auto simp: whitespace_def)

lemma whitespace_match_all:
  "list_all (\<lambda>p. match_len whitespace (p @ s) = length p) whitespace"
  by (simp add: whitespace_def match_len_def)

lemma whitespace_match: "p \<in> set whitespace \<Longrightarrow> match_len whitespace (p @ s) = length p"
  using whitespace_match_all [of s] by (simp add: list_all_iff)

lemma strip_left_blank: "blank s \<Longrightarrow> strip_left whitespace s = []"
proof (induction rule: blank.induct)
  case blank_Nil
  show ?case by simp
next
  case (blank_Cons p s)
  from whitespace_nonempty [OF blank_Cons.hyps(1)] obtain c cs where p: "p = c # cs"
    by (cases p) auto
  from whitespace_match [OF blank_Cons.hyps(1), of s]
  have "match_len whitespace (c # cs @ s) = Suc (length cs)"
    by (simp add: p)
  with blank_Cons.IH show ?case
    by (simp add: p)
qed

lemma py_strip_blank: "blank s \<Longrightarrow> py_strip s = []"
  by (simp add: py_strip_def strip_left_blank)

lemma message_not_blank: "\<not> blank DATA_UNAVAILABLE_MESSAGE"
proof
  assume "blank DATA_UNAVAILABLE_MESSAGE"
  then show False
  proof (cases rule: blank.cases)
    case blank_Nil
    then show False by (simp add: DATA_UNAVAILABLE_MESSAGE_def)
  next
    case (blank_Cons p s)
    from blank_Cons(2) blank_Cons(1) show False
      by (auto simp: whitespace_def DATA_UNAVAILABLE_MESSAGE_def)
  qed
qed

lemma blank_text_blank: "blank blank_text"
proof -
  have "blank ([CHR 0x20] @ [CHR 0x0A] @ [CHR 0xC2, CHR 0xA0] @ [])"
    by (intro blank.intros) (simp_all add: whitespace_def)
  then show ?thesis by (simp add: blank_text_def)
qed

section \<open>The commentary loop\<close>

lemma tafsir_entry_failed:
  "request_json w url = Inl e \<Longrightarrow> tafsir_entry w url = Inr DATA_UNAVAILABLE_MESSAGE"
  by (frule request_json_exn) (simp add: tafsir_entry_def)

lemma fetch_fails_raises:
  "fetch_fails (http_get w url) \<Longrightarrow> request_json w url = Inl RequestException"
  by (auto simp: fetch_fails_def request_json_def split: http_result.splits)

lemma tafsir_entry_blank:
  assumes "http_get w url = HttpResponse status (Some (JObj kvs))"
    and "map_of kvs ''text'' = Some (JStr t)" and "blank t"
  shows "tafsir_entry w url = Inr DATA_UNAVAILABLE_MESSAGE"
  using assms by (simp add: tafsir_entry_def request_json_def py_strip_blank)

lemma get_tafsir_data_returns:
  assumes "tafsir_entry w (tafsir_url ''en-kashf-al-asrar-tafsir'' surah ayah) = Inr v1"
    and "tafsir_entry w (tafsir_url ''en-tafisr-ibn-kathir'' surah ayah) = Inr v2"
    and "tafsir_entry w (tafsir_url ''en-tafsir-maarif-ul-quran'' surah ayah) = Inr v3"
  shows "get_tafsir_data w surah ayah =
    (Inr [''context'' \<mapsto> v1, ''classical'' \<mapsto> v2, ''modern'' \<mapsto> v3],
     [HttpGet (tafsir_url ''en-kashf-al-asrar-tafsir'' surah ayah),
      HttpGet (tafsir_url ''en-tafisr-ibn-kathir'' surah ayah),
      HttpGet (tafsir_url ''en-tafsir-maarif-ul-quran'' surah ayah)])"
  using assms by (simp add: get_tafsir_data_def TAFSIR_SOURCES_def)

lemma returnsE: "returns r \<Longrightarrow> (\<And>v. r = Inr v \<Longrightarrow> P) \<Longrightarrow> P"
  by (cases r) (simp_all add: returns_def)

lemma tafsir_entries:
  assumes
    "\<forall>(n, sl) \<in> set TAFSIR_SOURCES. returns (tafsir_entry w (tafsir_url sl surah ayah))"
  shows "snd (get_tafsir_data w surah ayah) =
      map (\<lambda>(n, sl). HttpGet (tafsir_url sl surah ayah)) TAFSIR_SOURCES
    \<and> returns (fst (get_tafsir_data w surah ayah))
    \<and> (\<forall>(n, sl) \<in> set TAFSIR_SOURCES.
          map_option Inr (entry_of (get_tafsir_data w surah ayah) n)
            = Some (tafsir_entry w (tafsir_url sl surah ayah)))"
proof -
  from assms obtain v1 where
    v1: "tafsir_entry w (tafsir_url ''en-kashf-al-asrar-tafsir'' surah ayah) = Inr v1"
    by (auto simp: TAFSIR_SOURCES_def elim: returnsE)
  from assms obtain v2 where
    v2: "tafsir_entry w (tafsir_url ''en-tafisr-ibn-kathir'' surah ayah) = Inr v2"
    by (auto simp: TAFSIR_SOURCES_def elim: returnsE)
  from assms obtain v3 where
    v3: "tafsir_entry w (tafsir_url ''en-tafsir-maarif-ul-quran'' surah ayah) = Inr v3"
    by (auto simp: TAFSIR_SOURCES_def elim: returnsE)
  show ?thesis
    by (simp add: get_tafsir_data_returns [OF v1 v2 v3] TAFSIR_SOURCES_def returns_def
        entry_of_def v1 v2 v3)
qed

lemma source_slug_unique:
  "(name, slug) \<in> set TAFSIR_SOURCES \<Longrightarrow> (name, sl) \<in> set TAFSIR_SOURCES \<Longrightarrow> sl = slug"
  by (auto simp: TAFSIR_SOURCES_def)

lemma kashf_not_kathir:
  "tafsir_url ''en-kashf-al-asrar-tafsir'' surah ayah
     \<noteq> tafsir_url ''en-tafisr-ibn-kathir'' surah ayah"
  by (simp add: tafsir_url_def)

lemma maarif_not_kathir:
  "tafsir_url ''en-tafsir-maarif-ul-quran'' surah ayah
     \<noteq> tafsir_url ''en-tafisr-ibn-kathir'' surah ayah"
  by (simp add: tafsir_url_def)

lemma good_entry_beside_classical:
  assumes "url \<noteq> tafsir_url ''en-tafisr-ibn-kathir'' 1 6"
  shows "tafsir_entry (example_env c classical_down_http k) url
           = Inr ''Commentary on the verse.''"
    and "tafsir_entry (example_env c classical_blank_http k) url
           = Inr ''Commentary on the verse.''"
    and "tafsir_entry (example_env c classical_null_http k) url
           = Inr ''Commentary on the verse.''"
  using assms
  by (simp_all add: tafsir_entry_def request_json_def example_env_def classical_down_http_def
      classical_blank_http_def classical_null_http_def good_http_def good_body_def
      strip_commentary)

text \<open>
  Claim C3 says that a failure at any one of the three sources neither raises out of
  \<^verbatim>\<open>get_tafsir_data\<close> nor keeps the other two sources from being fetched. The \<^verbatim>\<open>except\<close> clause
  of the loop names \<^verbatim>\<open>RequestException\<close> only, so an answer of an unexpected shape is not
  absorbed. Here, for verse 1:6, the source of the classical commentary answers with status
  200 and the body \<^verbatim>\<open>{"text": null}\<close>, and the two other sources answer as they should:
  \<^verbatim>\<open>None.strip()\<close> raises \<^verbatim>\<open>AttributeError\<close>, which leaves the function after the second
  request, and the source of the modern commentary is never requested. It is the defect of
  claim C4, met at the second source.
\<close>

theorem null_text_aborts_commentary_loop:
  "get_tafsir_data (example_env True classical_null_http completion_ok) 1 6 =
     (Inl AttributeError,
      [HttpGet (''https://cdn.jsdelivr.net/gh/spa5k/tafsir_api@main/tafsir/''
                  @ ''en-kashf-al-asrar-tafsir/1/6.json''),
       HttpGet (''https://cdn.jsdelivr.net/gh/spa5k/tafsir_api@main/tafsir/''
                  @ ''en-tafisr-ibn-kathir/1/6.json'')])"
proof -
  have first: "tafsir_entry (example_env True classical_null_http completion_ok)
      (tafsir_url ''en-kashf-al-asrar-tafsir'' 1 6) = Inr ''Commentary on the verse.''"
    by (rule good_entry_beside_classical(3) [OF kashf_not_kathir])
  have second: "tafsir_entry (example_env True classical_null_http completion_ok)
      (tafsir_url ''en-tafisr-ibn-kathir'' 1 6) = Inl AttributeError"
    by (simp add: tafsir_entry_def request_json_def example_env_def classical_null_http_def)
  have urls:
    "tafsir_url ''en-kashf-al-asrar-tafsir'' 1 6 =
       ''https://cdn.jsdelivr.net/gh/spa5k/tafsir_api@main/tafsir/''
         @ ''en-kashf-al-asrar-tafsir/1/6.json''"
    "tafsir_url ''en-tafisr-ibn-kathir'' 1 6 =
       ''https://cdn.jsdelivr.net/gh/spa5k/tafsir_api@main/tafsir/''
         @ ''en-tafisr-ibn-kathir/1/6.json''"
    by (simp_all add: tafsir_url_def TAFSIR_API_BASE_URL_def str_int_1 str_int_6)
  have "get_tafsir_data (example_env True classical_null_http completion_ok) 1 6 =
     (Inl AttributeError,
      [HttpGet (tafsir_url ''en-kashf-al-asrar-tafsir'' 1 6),
       HttpGet (tafsir_url ''en-tafisr-ibn-kathir'' 1 6)])"
    by (simp add: get_tafsir_data_def TAFSIR_SOURCES_def first second)
  then show ?thesis
    by (simp only: urls)
qed

text \<open>
  What the loop does absorb is a failure that \<^verbatim>\<open>requests\<close> reports: no response, a status
  from 400 to 599 or a body that is not JSON. When one source fails so and the turns for
  the two other sources do not raise, all three sources are requested, in their order,
  the key of the failed source is bound to \<^verbatim>\<open>DATA_UNAVAILABLE_MESSAGE\<close>, and each other key is
  bound to what the turn for its own source produced.
\<close>

lemma request_failure_absorbed:
  assumes src: "(name, slug) \<in> set TAFSIR_SOURCES"
    and failure: "fetch_fails (http_get w (tafsir_url slug surah ayah))"
    and others: "\<forall>(n, sl) \<in> set TAFSIR_SOURCES.
                   n \<noteq> name \<longrightarrow> returns (tafsir_entry w (tafsir_url sl surah ayah))"
  shows "snd (get_tafsir_data w surah ayah) =
      map (\<lambda>(n, sl). HttpGet (tafsir_url sl surah ayah)) TAFSIR_SOURCES
    \<and> returns (fst (get_tafsir_data w surah ayah))
    \<and> entry_of (get_tafsir_data w surah ayah) name = Some DATA_UNAVAILABLE_MESSAGE
    \<and> (\<forall>(n, sl) \<in> set TAFSIR_SOURCES.
          n \<noteq> name \<longrightarrow>
          map_option Inr (entry_of (get_tafsir_data w surah ayah) n)
            = Some (tafsir_entry w (tafsir_url sl surah ayah)))"
proof -
  have own: "tafsir_entry w (tafsir_url slug surah ayah) = Inr DATA_UNAVAILABLE_MESSAGE"
    using fetch_fails_raises [OF failure] by (rule tafsir_entry_failed)
  have all:
    "\<forall>(n, sl) \<in> set TAFSIR_SOURCES. returns (tafsir_entry w (tafsir_url sl surah ayah))"
  proof (clarify)
    fix n sl assume in_srcs: "(n, sl) \<in> set TAFSIR_SOURCES"
    show "returns (tafsir_entry w (tafsir_url sl surah ayah))"
    proof (cases "n = name")
      case True
      with in_srcs src have "sl = slug" by (auto dest: source_slug_unique)
      with own show ?thesis by (simp add: returns_def)
    next
      case False
      with others in_srcs show ?thesis by auto
    qed
  qed
  note facts = tafsir_entries [OF all]
  from facts src own
  have "entry_of (get_tafsir_data w surah ayah) name = Some DATA_UNAVAILABLE_MESSAGE"
    by fastforce
  with facts show ?thesis by auto
qed

text \<open>Verse 1:6 when the source of the classical commentary answers with status 503.\<close>

lemma request_failure_absorbed_example:
  "snd (get_tafsir_data (example_env True classical_down_http completion_ok) 1 6) =
        [HttpGet (tafsir_url ''en-kashf-al-asrar-tafsir'' 1 6),
         HttpGet (tafsir_url ''en-tafisr-ibn-kathir'' 1 6),
         HttpGet (tafsir_url ''en-tafsir-maarif-ul-quran'' 1 6)]
   \<and> returns (fst (get_tafsir_data (example_env True classical_down_http completion_ok) 1 6))
   \<and> entry_of (get_tafsir_data (example_env True classical_down_http completion_ok) 1 6)
        ''classical'' = Some DATA_UNAVAILABLE_MESSAGE
   \<and> entry_of (get_tafsir_data (example_env True classical_down_http completion_ok) 1 6)
        ''context'' = Some ''Commentary on the verse.''
   \<and> entry_of (get_tafsir_data (example_env True classical_down_http completion_ok) 1 6)
        ''modern'' = Some ''Commentary on the verse.''"
proof -
  have src: "(''classical'', ''en-tafisr-ibn-kathir'') \<in> set TAFSIR_SOURCES"
    by (simp add: TAFSIR_SOURCES_def)
  have down: "fetch_fails (http_get (example_env True classical_down_http completion_ok)
         (tafsir_url ''en-tafisr-ibn-kathir'' 1 6))"
    by (simp add: fetch_fails_def example_env_def classical_down_http_def)
  note good = good_entry_beside_classical(1) [OF kashf_not_kathir]
    good_entry_beside_classical(1) [OF maarif_not_kathir]
  have others: "\<forall>(n, sl) \<in> set TAFSIR_SOURCES. n \<noteq> ''classical'' \<longrightarrow>
      returns (tafsir_entry (example_env True classical_down_http completion_ok)
                 (tafsir_url sl 1 6))"
    by (simp add: TAFSIR_SOURCES_def good returns_def)
  from request_failure_absorbed [OF src down others] show ?thesis
    by (auto simp: TAFSIR_SOURCES_def good returns_def)
qed

text \<open>
  Claim C6. Take any of the three sources and let it answer, with any status, a JSON
  object whose \<^verbatim>\<open>text\<close> is empty or made of whitespace only, while the turns of the loop for
  the two other sources do not raise. Then \<^verbatim>\<open>get_tafsir_data\<close> returns, and the key of that
  source is bound to \<^verbatim>\<open>DATA_UNAVAILABLE_MESSAGE\<close>, which is not such a string.
\<close>

theorem blank_text_is_unavailable:
  assumes src: "(name, slug) \<in> set TAFSIR_SOURCES"
    and response:
      "http_get w (tafsir_url slug surah ayah) = HttpResponse status (Some (JObj kvs))"
    and field: "map_of kvs ''text'' = Some (JStr t)"
    and blank: "blank t"
    and others: "\<forall>(n, sl) \<in> set TAFSIR_SOURCES.
                   n \<noteq> name \<longrightarrow> returns (tafsir_entry w (tafsir_url sl surah ayah))"
  shows "returns (fst (get_tafsir_data w surah ayah))
    \<and> entry_of (get_tafsir_data w surah ayah) name = Some DATA_UNAVAILABLE_MESSAGE
    \<and> \<not> blank DATA_UNAVAILABLE_MESSAGE"
proof -
  have own: "tafsir_entry w (tafsir_url slug surah ayah) = Inr DATA_UNAVAILABLE_MESSAGE"
    using response field blank by (rule tafsir_entry_blank)
  have all:
    "\<forall>(n, sl) \<in> set TAFSIR_SOURCES. returns (tafsir_entry w (tafsir_url sl surah ayah))"
  proof (clarify)
    fix n sl assume in_srcs: "(n, sl) \<in> set TAFSIR_SOURCES"
    show "returns (tafsir_entry w (tafsir_url sl surah ayah))"
    proof (cases "n = name")
      case True
      with in_srcs src have "sl = slug" by (auto dest: source_slug_unique)
      with own show ?thesis by (simp add: returns_def)
    next
      case False
      with others in_srcs show ?thesis by auto
    qed
  qed
  note facts = tafsir_entries [OF all]
  from facts src own
  have "entry_of (get_tafsir_data w surah ayah) name = Some DATA_UNAVAILABLE_MESSAGE"
    by fastforce
  with facts message_not_blank show ?thesis by auto
qed

text \<open>
  Verse 1:6 when the source of the classical commentary answers with a space, a line feed
  and a no-break space.
\<close>

theorem blank_text_is_unavailable_witness:
  "(''classical'', ''en-tafisr-ibn-kathir'') \<in> set TAFSIR_SOURCES
   \<and> http_get (example_env True classical_blank_http completion_ok)
         (tafsir_url ''en-tafisr-ibn-kathir'' 1 6)
       = HttpResponse 200 (Some (JObj [(''text'', JStr blank_text)]))
   \<and> map_of [(''text'', JStr blank_text)] ''text'' = Some (JStr blank_text)
   \<and> blank blank_text
   \<and> returns (tafsir_entry (example_env True classical_blank_http completion_ok)
                 (tafsir_url ''en-kashf-al-asrar-tafsir'' 1 6))
   \<and> returns (tafsir_entry (example_env True classical_blank_http completion_ok)
                 (tafsir_url ''en-tafsir-maarif-ul-quran'' 1 6))
   \<and> returns (fst (get_tafsir_data (example_env True classical_blank_http completion_ok) 1 6))
   \<and> entry_of (get_tafsir_data (example_env True classical_blank_http completion_ok) 1 6)
        ''classical'' = Some DATA_UNAVAILABLE_MESSAGE
   \<and> \<not> blank DATA_UNAVAILABLE_MESSAGE"
proof -
  have src: "(''classical'', ''en-tafisr-ibn-kathir'') \<in> set TAFSIR_SOURCES"
    by (simp add: TAFSIR_SOURCES_def)
  have response: "http_get (example_env True classical_blank_http completion_ok)
         (tafsir_url ''en-tafisr-ibn-kathir'' 1 6)
       = HttpResponse 200 (Some (JObj [(''text'', JStr blank_text)]))"
    by (simp add: example_env_def classical_blank_http_def)
  have field: "map_of [(''text'', JStr blank_text)] ''text'' = Some (JStr blank_text)"
    by simp
  note good = good_entry_beside_classical(2) [OF kashf_not_kathir]
    good_entry_beside_classical(2) [OF maarif_not_kathir]
  have others: "\<forall>(n, sl) \<in> set TAFSIR_SOURCES. n \<noteq> ''classical'' \<longrightarrow>
      returns (tafsir_entry (example_env True classical_blank_http completion_ok)
                 (tafsir_url sl 1 6))"
    by (simp add: TAFSIR_SOURCES_def good returns_def)
  from blank_text_is_unavailable [OF src response field blank_text_blank others]
    src response blank_text_blank
  show ?thesis
    by (simp add: good returns_def)
qed

section \<open>The prompt\<close>

lemma occurs_here: "occurs_in_order bs post \<Longrightarrow> occurs_in_order (b # bs) (pre @ b @ post)"
  by auto

lemma occurs_skip: "occurs_in_order bs s \<Longrightarrow> occurs_in_order bs (x @ s)"
proof (cases bs)
  case Nil
  then show ?thesis by simp
next
  case (Cons b bs')
  assume "occurs_in_order bs s"
  with Cons obtain pre post where "s = pre @ b @ post" "occurs_in_order bs' post"
    by auto
  then have "\<exists>pre' post'. x @ s = pre' @ b @ post' \<and> occurs_in_order bs' post'"
    by (intro exI [of _ "x @ pre"] exI [of _ post]) simp
  with Cons show ?thesis
    by simp
qed

text \<open>
  Claim C7. The prompt is a function of its four arguments and of nothing else (the
  embedding has no environment and no trace, as the source has no input or output), and
  it reads the dictionary at the three keys only: two dictionaries that agree there give
  the same prompt. When the dictionary has the three keys, the prompt contains the
  chapter number, the verse number, the translation and the three commentaries, one after
  the other in this order: translation, context, classical, modern.
\<close>

theorem prompt_contains_blocks_in_order:
  assumes "tafsir_data ''context'' = Some context_text"
    and "tafsir_data ''classical'' = Some classical_text"
    and "tafsir_data ''modern'' = Some modern_text"
  shows "occurs_in_order
      [str_int surah, str_int ayah, ayah_text, context_text, classical_text, modern_text]
      (generate_explanation_prompt surah ayah ayah_text tafsir_data)
    \<and> (other ''context'' = tafsir_data ''context''
         \<and> other ''classical'' = tafsir_data ''classical''
         \<and> other ''modern'' = tafsir_data ''modern'' \<longrightarrow>
       generate_explanation_prompt surah ayah ayah_text other =
         generate_explanation_prompt surah ayah ayah_text tafsir_data)"
proof
  show "occurs_in_order
      [str_int surah, str_int ayah, ayah_text, context_text, classical_text, modern_text]
      (generate_explanation_prompt surah ayah ayah_text tafsir_data)"
    unfolding generate_explanation_prompt_def assms str_opt.simps
    by (intro occurs_here occurs_skip) simp
  show "other ''context'' = tafsir_data ''context''
         \<and> other ''classical'' = tafsir_data ''classical''
         \<and> other ''modern'' = tafsir_data ''modern'' \<longrightarrow>
       generate_explanation_prompt surah ayah ayah_text other =
         generate_explanation_prompt surah ayah ayah_text tafsir_data"
    by (simp add: generate_explanation_prompt_def)
qed

text \<open>The prompt for verse 1:6; a fourth key of the dictionary changes nothing.\<close>

theorem prompt_contains_blocks_in_order_witness:
  "good_tafsir ''context'' = Some ''Commentary on the verse.''
   \<and> good_tafsir ''classical'' = Some ''Commentary on the verse.''
   \<and> good_tafsir ''modern'' = Some ''Commentary on the verse.''
   \<and> occurs_in_order
       [''1'', ''6'', ''Guide us the straight way.'', ''Commentary on the verse.'',
        ''Commentary on the verse.'', ''Commentary on the verse.'']
       good_prompt
   \<and> generate_explanation_prompt 1 6 ''Guide us the straight way.''
        (good_tafsir(''note'' \<mapsto> ''unused'')) = good_prompt"
proof -
  have keys: "good_tafsir ''context'' = Some ''Commentary on the verse.''"
    "good_tafsir ''classical'' = Some ''Commentary on the verse.''"
    "good_tafsir ''modern'' = Some ''Commentary on the verse.''"
    by (simp_all add: good_tafsir_def)
  have same: "(good_tafsir(''note'' \<mapsto> ''unused'')) ''context'' = good_tafsir ''context''"
    "(good_tafsir(''note'' \<mapsto> ''unused'')) ''classical'' = good_tafsir ''classical''"
    "(good_tafsir(''note'' \<mapsto> ''unused'')) ''modern'' = good_tafsir ''modern''"
    by simp_all
  from prompt_contains_blocks_in_order
    [OF keys, of 1 6 "''Guide us the straight way.''" "good_tafsir(''note'' \<mapsto> ''unused'')"]
    keys same
  show ?thesis
    by (simp only: good_prompt_def str_int_1 str_int_6 simp_thms)
qed

section \<open>What the fetchers absorb\<close>

text \<open>
  The failures that the two functions do turn into text. A failed request of the
  translation gives the network-error text, and an answer without the field \<^verbatim>\<open>data\<close> the
  other fallback text.
\<close>

lemma get_ayah_text_request_failure:
  "request_json w (ayah_url surah ayah) = Inl e \<Longrightarrow>
   fst (get_ayah_text w surah ayah) =
     Inr (JStr ''Could not retrieve the translation due to a network error.'')"
  by (frule request_json_exn) (simp add: get_ayah_text_def ayah_text_try_def)

lemma get_ayah_text_missing_field:
  assumes "request_json w (ayah_url surah ayah) = Inr (JObj kvs)"
    and "map_of kvs ''data'' = None"
  shows "fst (get_ayah_text w surah ayah) =
     Inr (JStr ''Could not retrieve the translation for this verse.'')"
  using assms
  by (cases "map_of kvs ''code''") (simp_all add: get_ayah_text_def ayah_text_try_def)

text \<open>
  When no turn of the commentary loop raises, the dictionary has exactly the three keys,
  and no text in it is empty.
\<close>

lemma tafsir_entry_nonempty: "tafsir_entry w url = Inr v \<Longrightarrow> v \<noteq> []"
  by (auto simp: tafsir_entry_def ebind_def DATA_UNAVAILABLE_MESSAGE_def
      split: sum.splits if_splits)

lemma get_tafsir_data_three_keys:
  assumes
    "\<forall>(n, sl) \<in> set TAFSIR_SOURCES. returns (tafsir_entry w (tafsir_url sl surah ayah))"
  shows "\<exists>m. fst (get_tafsir_data w surah ayah) = Inr m
    \<and> dom m = {''context'', ''classical'', ''modern''}
    \<and> (\<forall>k v. m k = Some v \<longrightarrow> v \<noteq> [])"
proof -
  from assms obtain v1 where
    v1: "tafsir_entry w (tafsir_url ''en-kashf-al-asrar-tafsir'' surah ayah) = Inr v1"
    by (auto simp: TAFSIR_SOURCES_def elim: returnsE)
  from assms obtain v2 where
    v2: "tafsir_entry w (tafsir_url ''en-tafisr-ibn-kathir'' surah ayah) = Inr v2"
    by (auto simp: TAFSIR_SOURCES_def elim: returnsE)
  from assms obtain v3 where
    v3: "tafsir_entry w (tafsir_url ''en-tafsir-maarif-ul-quran'' surah ayah) = Inr v3"
    by (auto simp: TAFSIR_SOURCES_def elim: returnsE)
  from v1 v2 v3 have "v1 \<noteq> []" "v2 \<noteq> []" "v3 \<noteq> []"
    by (auto dest: tafsir_entry_nonempty)
  then show ?thesis
    by (auto simp: get_tafsir_data_returns [OF v1 v2 v3] split: if_splits)
qed

end
